theory Spec2Isabelle
  imports Main
begin

section \<open>Data model (types file and the state hooks of \<open>App\<close>)\<close>

text \<open>
  The records follow the TypeScript interfaces. An optional field \<open>f?: T\<close> is a
  \<open>T option\<close>, \<open>None\<close> standing for an absent field (\<open>undefined\<close>). The field \<open>_id\<close> of an
  event is written \<open>ev_id\<close>; the fields \<open>id\<close> and \<open>status\<close> of users and applications carry a
  prefix, since record fields are global names. \<open>number\<close> is \<open>int\<close>: no handler computes
  with attendee counts or capacities.
\<close>

datatype RegistrationStatus = none | pending | confirmed | rejected

datatype EventStatus = upcoming | ongoing | completed | future

text \<open>\<open>EventFormData = Omit<IEvent, '_id' | 'attendees' | 'registrationStatus'>\<close>: the event
  record extends the form record by the three omitted fields.\<close>

record EventFormData =
  title :: string
  date :: string
  location :: string
  description :: string
  category :: string
  capacity :: int
  imageUrl :: "string option"
  status :: EventStatus

record IEvent = EventFormData +
  ev_id :: string
  attendees :: int
  registrationStatus :: "RegistrationStatus option"

datatype Role = user | admin

record IUser =
  user_id :: string
  name :: string
  email :: string
  phoneNumber :: "string option"
  role :: Role

record IApplication =
  app_id :: string
  eventId :: string
  eventTitle :: string
  userId :: string
  userName :: string
  userEmail :: string
  userPhone :: "string option"
  app_status :: RegistrationStatus
  timestamp :: string

text \<open>The argument \<open>details: {name, email, phoneNumber}\<close> of \<open>handleApplyConfirm\<close>.\<close>

record ContactDetails =
  d_name :: string
  d_email :: string
  d_phoneNumber :: string

datatype NotificationType = success | error

record Notification =
  message :: string
  type :: NotificationType

datatype ViewState = home | admin_login | cms | user_dashboard

datatype Tab = dashboard | applications_tab | backend

datatype ViewMode = list_mode | calendar_mode

record RescheduleModal =
  isOpen :: bool
  rs_eventId :: string
  rs_eventTitle :: string
  currentDate :: string

text \<open>One field per \<open>useState\<close> hook of \<open>App\<close>, in the order of the source.\<close>

record AppState =
  currentView :: ViewState
  adminAuthenticated :: bool
  currentUser :: "IUser option"
  showUserAuth :: bool
  activeTab :: Tab
  dashboardViewMode :: ViewMode
  events :: "IEvent list"
  applications :: "IApplication list"
  loading :: bool
  isModalOpen :: bool
  isApplicationModalOpen :: bool
  selectedEventForApp :: "IEvent option"
  rescheduleModal :: "RescheduleModal option"
  newDate :: string
  formSubmitting :: bool
  searchTerm :: string
  adminSelectedEvent :: "IEvent option"
  notification :: "Notification option"

text \<open>The initial values of the hooks.\<close>

definition initialState :: AppState where
  "initialState =
     \<lparr> currentView = home, adminAuthenticated = False, currentUser = None,
       showUserAuth = False, activeTab = dashboard, dashboardViewMode = list_mode,
       events = [], applications = [], loading = True, isModalOpen = False,
       isApplicationModalOpen = False, selectedEventForApp = None,
       rescheduleModal = None, newDate = [], formSubmitting = False,
       searchTerm = [], adminSelectedEvent = None, notification = None \<rparr>"

section \<open>View rendering\<close>

text \<open>
  The chain of \<open>if\<close> statements at the end of \<open>App\<close> picks the top-level screen; the last
  \<open>return\<close> is the fallback \<open><div>Access Denied</div>\<close>.
\<close>

datatype Screen = HomePage | UserDashboard | LoginPage | CmsLayout | AccessDenied

definition render :: "AppState \<Rightarrow> Screen" where
  "render s =
     (if currentView s = home then HomePage
      else if currentView s = user_dashboard \<and> currentUser s \<noteq> None then UserDashboard
      else if currentView s = admin_login then LoginPage
      else if currentView s = cms \<and> adminAuthenticated s then CmsLayout
      else AccessDenied)"

section \<open>The persistence client and the effects of a handler\<close>

text \<open>
  The persistence client (\<open>services/mockDatabase\<close>) is an external collaborator: each of its
  operations returns a promise. A handler's model takes the way each awaited promise
  settles as an argument: \<open>Inr v\<close> when it is fulfilled with \<open>v\<close>, \<open>Inl r\<close> when it is
  rejected (the \<open>catch\<close> branch runs).
\<close>

datatype rejection = Rejected string

type_synonym 'a outcome = "rejection + 'a"

text \<open>The calls a handler issues, with their arguments.\<close>

datatype request =
    GetEvents
  | GetApplications
  | CreateEvent EventFormData
  | DeleteEvent string
  | ApplyForEvent string string ContactDetails
  | UpdateApplicationStatus string RegistrationStatus
  | UpdateEvent string string

text \<open>
  What a handler does besides writing the state hooks, in program order: a call of the
  persistence client, \<open>window.confirm\<close>, a call \<open>setNotification({...})\<close> (the notification is
  also written to the state), \<open>console.error\<close>.
\<close>

datatype effect =
    Remote request
  | WindowConfirm string
  | Notify Notification
  | ConsoleError

text \<open>JavaScript truthiness of a string, and of an optional string (\<open>undefined\<close> is falsy).\<close>

definition truthy :: "string \<Rightarrow> bool" where
  "truthy x = (x \<noteq> [])"

definition truthy_opt :: "string option \<Rightarrow> bool" where
  "truthy_opt x = (case x of None \<Rightarrow> False | Some y \<Rightarrow> truthy y)"

definition notify :: "string \<Rightarrow> NotificationType \<Rightarrow> Notification" where
  "notify m t = \<lparr> message = m, type = t \<rparr>"

section \<open>Loading the event collection\<close>

text \<open>
  \<open>loadEvents\<close> sets the loading flag and awaits \<open>getEvents()\<close>; when the promise settles
  it replaces the collection (or logs the error) and clears the flag.
\<close>

definition loadEvents_start :: "AppState \<Rightarrow> effect list \<times> AppState" where
  "loadEvents_start s = ([Remote GetEvents], s\<lparr>loading := True\<rparr>)"

definition loadEvents_settle :: "IEvent list outcome \<Rightarrow> AppState \<Rightarrow> effect list \<times> AppState" where
  "loadEvents_settle r s =
     (case r of
        Inr data \<Rightarrow> ([], s\<lparr>events := data, loading := False\<rparr>)
      | Inl err \<Rightarrow> ([ConsoleError], s\<lparr>loading := False\<rparr>))"

definition loadEvents :: "IEvent list outcome \<Rightarrow> AppState \<Rightarrow> effect list \<times> AppState" where
  "loadEvents r s =
     (case loadEvents_start s of (es1, s1) \<Rightarrow>
        (case loadEvents_settle r s1 of (es2, s2) \<Rightarrow> (es1 @ es2, s2)))"

section \<open>Registration: apply and cancel\<close>

text \<open>\<open>directEventId || selectedEventForApp?._id\<close>; \<open>None\<close> is \<open>undefined\<close>.\<close>

definition targetEventId :: "string option \<Rightarrow> AppState \<Rightarrow> string option" where
  "targetEventId directEventId s =
     (if truthy_opt directEventId then directEventId
      else map_option ev_id (selectedEventForApp s))"

text \<open>\<open>e.registrationStatus && e.registrationStatus !== 'none'\<close>.\<close>

definition isCancelling :: "IEvent \<Rightarrow> bool" where
  "isCancelling e =
     (case registrationStatus e of None \<Rightarrow> False | Some r \<Rightarrow> r \<noteq> none)"

text \<open>The function mapped over the collection by the optimistic update.\<close>

definition optimisticUpdate :: "string \<Rightarrow> IEvent \<Rightarrow> IEvent" where
  "optimisticUpdate eid e =
     (if ev_id e = eid
      then e\<lparr>registrationStatus := Some (if isCancelling e then none else pending)\<rparr>
      else e)"

text \<open>\<open>{ ...currentUser, ...details }\<close>.\<close>

definition mergeDetails :: "IUser \<Rightarrow> ContactDetails \<Rightarrow> IUser" where
  "mergeDetails u d =
     u\<lparr>name := d_name d, email := d_email d, phoneNumber := Some (d_phoneNumber d)\<rparr>"

text \<open>
  The synchronous part of \<open>handleApplyConfirm\<close>, from the call to the \<open>await\<close>: the guard,
  the optimistic update, the update of the session identity and the call of
  \<open>applyForEvent\<close>. The result is \<open>None\<close> when the guard returns early; otherwise the target
  identifier, the call that is now pending and the state at that moment.
\<close>

definition handleApplyConfirm_start ::
  "ContactDetails \<Rightarrow> string option \<Rightarrow> AppState \<Rightarrow> (string \<times> effect list \<times> AppState) option" where
  "handleApplyConfirm_start details directEventId s =
     (case targetEventId directEventId s of
        None \<Rightarrow> None
      | Some eid \<Rightarrow>
          (case currentUser s of
             None \<Rightarrow> None
           | Some u \<Rightarrow>
               if \<not> truthy eid then None
               else Some (eid,
                 [Remote (ApplyForEvent eid (user_id u) details)],
                 s\<lparr>formSubmitting := True,
                   events := map (optimisticUpdate eid) (events s),
                   currentUser := Some (mergeDetails u details)\<rparr>)))"

text \<open>
  The rest of \<open>handleApplyConfirm\<close>, run when \<open>applyForEvent\<close> settles. The handler reads
  \<open>events\<close> from the render it was created in (\<open>c\<close>, the state before the optimistic
  update) and writes to the current state \<open>s\<close>. On rejection it calls \<open>loadEvents()\<close>
  without awaiting it, so only the synchronous part of the reload runs here.
\<close>

definition handleApplyConfirm_settle ::
  "AppState \<Rightarrow> string \<Rightarrow> unit outcome \<Rightarrow> AppState \<Rightarrow> effect list \<times> AppState" where
  "handleApplyConfirm_settle c eid r s =
     (case r of
        Inr _ \<Rightarrow>
          (let cancelling =
                 (case find (\<lambda>e. ev_id e = eid) (events c) of
                    None \<Rightarrow> False
                  | Some e \<Rightarrow> isCancelling e);
               n = (if \<not> cancelling
                    then notify ''Application submitted! An admin will review your request.'' success
                    else notify ''Application withdrawn.'' success)
           in ([Notify n],
               s\<lparr>notification := Some n,
                 formSubmitting := False, isApplicationModalOpen := False,
                 selectedEventForApp := None\<rparr>))
      | Inl err \<Rightarrow>
          (case loadEvents_start s of (es, s1) \<Rightarrow>
             (let n = notify ''Action failed.'' error
              in (ConsoleError # es @ [Notify n],
                  s1\<lparr>notification := Some n,
                    formSubmitting := False, isApplicationModalOpen := False,
                    selectedEventForApp := None\<rparr>))))"

text \<open>
  A whole run of \<open>handleApplyConfirm\<close> with nothing else interleaved: \<open>r\<close> is the way
  \<open>applyForEvent\<close> settles and \<open>reload\<close> the way the \<open>getEvents\<close> of the revert settles
  (used only when \<open>r\<close> is a rejection).
\<close>

definition handleApplyConfirm ::
  "ContactDetails \<Rightarrow> string option \<Rightarrow> unit outcome \<Rightarrow> IEvent list outcome \<Rightarrow> AppState
     \<Rightarrow> effect list \<times> AppState" where
  "handleApplyConfirm details directEventId r reload s =
     (case handleApplyConfirm_start details directEventId s of
        None \<Rightarrow> ([], s)
      | Some (eid, es1, s1) \<Rightarrow>
          (case handleApplyConfirm_settle s eid r s1 of (es2, s2) \<Rightarrow>
             (case r of
                Inr _ \<Rightarrow> (es1 @ es2, s2)
              | Inl _ \<Rightarrow>
                  (case loadEvents_settle reload s2 of (es3, s3) \<Rightarrow>
                     (es1 @ es2 @ es3, s3)))))"

text \<open>\<open>currentUser.phoneNumber || ''\<close> and the details built from the session identity.\<close>

definition ownDetails :: "IUser \<Rightarrow> ContactDetails" where
  "ownDetails u =
     \<lparr> d_name = name u, d_email = email u,
       d_phoneNumber = (case phoneNumber u of None \<Rightarrow> [] | Some p \<Rightarrow> if truthy p then p else []) \<rparr>"

definition initiateJoinEvent ::
  "IEvent \<Rightarrow> unit outcome \<Rightarrow> IEvent list outcome \<Rightarrow> AppState \<Rightarrow> effect list \<times> AppState" where
  "initiateJoinEvent event r reload s =
     (case currentUser s of
        None \<Rightarrow> ([], s\<lparr>showUserAuth := True\<rparr>)
      | Some u \<Rightarrow>
          if isCancelling event
          then handleApplyConfirm (ownDetails u) (Some (ev_id event)) r reload s
          else ([], s\<lparr>selectedEventForApp := Some event, isApplicationModalOpen := True\<rparr>))"

section \<open>Admin actions\<close>

subsection \<open>Create\<close>

text \<open>\<open>{ ...data, imageUrl: data.imageUrl || undefined }\<close>.\<close>

definition newEventData :: "EventFormData \<Rightarrow> EventFormData" where
  "newEventData data =
     data\<lparr>imageUrl := (if truthy_opt (imageUrl data) then imageUrl data else None)\<rparr>"

text \<open>\<open>if (data.imageUrl) newEvent.imageUrl = data.imageUrl\<close>: the record returned by the
  backend, with the form's image reference written into it when the form has one.\<close>

definition withFormImage :: "EventFormData \<Rightarrow> IEvent \<Rightarrow> IEvent" where
  "withFormImage data newEvent =
     (if truthy_opt (imageUrl data) then newEvent\<lparr>imageUrl := imageUrl data\<rparr> else newEvent)"

definition handleCreateEvent_start :: "EventFormData \<Rightarrow> AppState \<Rightarrow> effect list \<times> AppState" where
  "handleCreateEvent_start data s =
     ([Remote (CreateEvent (newEventData data))], s\<lparr>formSubmitting := True\<rparr>)"

text \<open>\<open>setEvents([newEvent, ...events])\<close> reads \<open>events\<close> from the render \<open>c\<close> the handler
  was created in.\<close>

definition handleCreateEvent_settle ::
  "AppState \<Rightarrow> EventFormData \<Rightarrow> IEvent outcome \<Rightarrow> AppState \<Rightarrow> effect list \<times> AppState" where
  "handleCreateEvent_settle c data r s =
     (case r of
        Inr newEvent \<Rightarrow>
          (let n = notify ''Event created successfully!'' success
           in ([Notify n],
               s\<lparr>events := withFormImage data newEvent # events c,
                 isModalOpen := False, notification := Some n, formSubmitting := False\<rparr>))
      | Inl err \<Rightarrow>
          (let n = notify ''Failed to create event.'' error
           in ([Notify n], s\<lparr>notification := Some n, formSubmitting := False\<rparr>)))"

definition handleCreateEvent ::
  "EventFormData \<Rightarrow> IEvent outcome \<Rightarrow> AppState \<Rightarrow> effect list \<times> AppState" where
  "handleCreateEvent data r s =
     (case handleCreateEvent_start data s of (es1, s1) \<Rightarrow>
        (case handleCreateEvent_settle s data r s1 of (es2, s2) \<Rightarrow> (es1 @ es2, s2)))"

subsection \<open>Delete\<close>

definition confirmDeleteText :: string where
  "confirmDeleteText = ''Are you sure you want to cancel this event?''"

text \<open>
  The synchronous part of \<open>handleDeleteEvent\<close>: \<open>ok\<close> is the answer of \<open>window.confirm\<close>, and
  the result says whether the handler goes on (\<open>deleteEvent\<close> is then pending).
  \<open>e.stopPropagation()\<close> concerns the click event only and is left out.
\<close>

definition handleDeleteEvent_start :: "string \<Rightarrow> bool \<Rightarrow> AppState \<Rightarrow> bool \<times> effect list \<times> AppState" where
  "handleDeleteEvent_start id' ok s =
     (if \<not> ok then (False, [WindowConfirm confirmDeleteText], s)
      else (True, [WindowConfirm confirmDeleteText, Remote (DeleteEvent id')], s))"

definition handleDeleteEvent_settle ::
  "AppState \<Rightarrow> string \<Rightarrow> unit outcome \<Rightarrow> AppState \<Rightarrow> effect list \<times> AppState" where
  "handleDeleteEvent_settle c id' r s =
     (case r of
        Inr _ \<Rightarrow>
          (let n = notify ''Event deleted.'' success
           in ([Notify n],
               s\<lparr>events := filter (\<lambda>ev. ev_id ev \<noteq> id') (events c), notification := Some n\<rparr>))
      | Inl err \<Rightarrow>
          (let n = notify ''Failed to delete event.'' error
           in ([Notify n], s\<lparr>notification := Some n\<rparr>)))"

definition handleDeleteEvent ::
  "string \<Rightarrow> bool \<Rightarrow> unit outcome \<Rightarrow> AppState \<Rightarrow> effect list \<times> AppState" where
  "handleDeleteEvent id' ok r s =
     (case handleDeleteEvent_start id' ok s of
        (False, es1, s1) \<Rightarrow> (es1, s1)
      | (True, es1, s1) \<Rightarrow>
          (case handleDeleteEvent_settle s id' r s1 of (es2, s2) \<Rightarrow> (es1 @ es2, s2)))"

subsection \<open>Application status\<close>

text \<open>The status as it appears in the template string of the success message.\<close>

fun statusText :: "RegistrationStatus \<Rightarrow> string" where
  "statusText none = ''none''"
| "statusText pending = ''pending''"
| "statusText confirmed = ''confirmed''"
| "statusText rejected = ''rejected''"

text \<open>\<open>apps.map(a => a.id === appId ? { ...a, status } : a)\<close>.\<close>

definition setApplicationStatus ::
  "string \<Rightarrow> RegistrationStatus \<Rightarrow> IApplication \<Rightarrow> IApplication" where
  "setApplicationStatus appId st a = (if app_id a = appId then a\<lparr>app_status := st\<rparr> else a)"

definition handleApplicationAction_start ::
  "string \<Rightarrow> RegistrationStatus \<Rightarrow> AppState \<Rightarrow> effect list \<times> AppState" where
  "handleApplicationAction_start appId st s = ([Remote (UpdateApplicationStatus appId st)], s)"

text \<open>
  The part of \<open>handleApplicationAction\<close> that runs when \<open>updateApplicationStatus\<close> settles.
  \<open>setApplications\<close> is given a function, so it maps over the current collection;
  \<open>applications.find\<close> reads the collection of the render \<open>c\<close>. The call \<open>loadEvents()\<close> is
  not awaited: only its synchronous part runs here. The TypeScript type of \<open>status\<close> has
  the three values \<open>confirmed\<close>, \<open>rejected\<close> and \<open>pending\<close>.
\<close>

definition handleApplicationAction_settle ::
  "AppState \<Rightarrow> string \<Rightarrow> RegistrationStatus \<Rightarrow> unit outcome \<Rightarrow> AppState
     \<Rightarrow> effect list \<times> AppState" where
  "handleApplicationAction_settle c appId st r s =
     (case r of
        Inr _ \<Rightarrow>
          (let s1 = s\<lparr>applications := map (setApplicationStatus appId st) (applications s)\<rparr>;
               n = notify (''Application updated to '' @ statusText st @ ''.'') success
           in (case find (\<lambda>a. app_id a = appId) (applications c) of
                 Some app \<Rightarrow>
                   (case loadEvents_start s1 of (es, s2) \<Rightarrow>
                      (es @ [Notify n], s2\<lparr>notification := Some n\<rparr>))
               | None \<Rightarrow> ([Notify n], s1\<lparr>notification := Some n\<rparr>)))
      | Inl err \<Rightarrow>
          (let n = notify ''Failed to update application.'' error
           in ([Notify n], s\<lparr>notification := Some n\<rparr>)))"

text \<open>Whether a run of \<open>handleApplicationAction\<close> leaves a reload of the events pending.\<close>

definition reloadPending :: "AppState \<Rightarrow> string \<Rightarrow> unit outcome \<Rightarrow> bool" where
  "reloadPending c appId r =
     (case r of
        Inr _ \<Rightarrow> find (\<lambda>a. app_id a = appId) (applications c) \<noteq> None
      | Inl _ \<Rightarrow> False)"

text \<open>A whole run, the pending reload (when there is one) settling as \<open>reload\<close>.\<close>

definition handleApplicationAction ::
  "string \<Rightarrow> RegistrationStatus \<Rightarrow> unit outcome \<Rightarrow> IEvent list outcome \<Rightarrow> AppState
     \<Rightarrow> effect list \<times> AppState" where
  "handleApplicationAction appId st r reload s =
     (case handleApplicationAction_start appId st s of (es1, s1) \<Rightarrow>
        (case handleApplicationAction_settle s appId st r s1 of (es2, s2) \<Rightarrow>
           (if reloadPending s appId r
            then (case loadEvents_settle reload s2 of (es3, s3) \<Rightarrow> (es1 @ es2 @ es3, s3))
            else (es1 @ es2, s2))))"

subsection \<open>Reschedule\<close>

text \<open>\<open>event?.date || ''\<close> for the event found by identifier.\<close>

definition openRescheduleModal :: "string \<Rightarrow> string \<Rightarrow> string \<Rightarrow> AppState \<Rightarrow> AppState" where
  "openRescheduleModal eid etitle d s =
     (let cur = (case find (\<lambda>e. ev_id e = eid) (events s) of None \<Rightarrow> [] | Some e \<Rightarrow> date e)
      in s\<lparr>newDate := cur,
           rescheduleModal :=
             Some \<lparr> isOpen = True, rs_eventId = eid, rs_eventTitle = etitle, currentDate = cur \<rparr>\<rparr>)"

text \<open>
  The synchronous part of \<open>handleRescheduleSubmit\<close>: \<open>None\<close> when the guard returns early,
  otherwise the pending call and the state, to which nothing has been written.
\<close>

definition handleRescheduleSubmit_start :: "AppState \<Rightarrow> (effect list \<times> AppState) option" where
  "handleRescheduleSubmit_start s =
     (case rescheduleModal s of
        None \<Rightarrow> None
      | Some m \<Rightarrow>
          if \<not> truthy (newDate s) then None
          else Some ([Remote (UpdateEvent (rs_eventId m) (newDate s))], s))"

text \<open>\<open>e._id === rescheduleModal.eventId ? { ...e, date: newDate } : e\<close>.\<close>

definition patchDate :: "string \<Rightarrow> string \<Rightarrow> IEvent \<Rightarrow> IEvent" where
  "patchDate eid d e = (if ev_id e = eid then e\<lparr>date := d\<rparr> else e)"

text \<open>\<open>rescheduleModal\<close> and \<open>newDate\<close> are read from the render (\<open>m\<close>, \<open>d\<close>); \<open>setEvents\<close> is
  given a function of the current collection.\<close>

definition handleRescheduleSubmit_settle ::
  "RescheduleModal \<Rightarrow> string \<Rightarrow> unit outcome \<Rightarrow> AppState \<Rightarrow> effect list \<times> AppState" where
  "handleRescheduleSubmit_settle m d r s =
     (case r of
        Inr _ \<Rightarrow>
          (let n = notify ''Event rescheduled successfully. Applicants notified.'' success
           in ([Notify n],
               s\<lparr>events := map (patchDate (rs_eventId m) d) (events s),
                 notification := Some n, rescheduleModal := None\<rparr>))
      | Inl err \<Rightarrow>
          (let n = notify ''Failed to reschedule.'' error
           in ([Notify n], s\<lparr>notification := Some n\<rparr>)))"

definition handleRescheduleSubmit :: "unit outcome \<Rightarrow> AppState \<Rightarrow> effect list \<times> AppState" where
  "handleRescheduleSubmit r s =
     (case handleRescheduleSubmit_start s of
        None \<Rightarrow> ([], s)
      | Some (es1, s1) \<Rightarrow>
          (case rescheduleModal s of
             None \<Rightarrow> (es1, s1)
           | Some m \<Rightarrow>
               (case handleRescheduleSubmit_settle m (newDate s) r s1 of
                  (es2, s2) \<Rightarrow> (es1 @ es2, s2))))"

section \<open>Reading the effects of a run\<close>

fun isNotify :: "effect \<Rightarrow> bool" where
  "isNotify (Notify n) = True"
| "isNotify _ = False"

fun isRemote :: "effect \<Rightarrow> bool" where
  "isRemote (Remote q) = True"
| "isRemote _ = False"

section \<open>The notification and its timer\<close>

text \<open>
  The notification hook together with the effect that dismisses it:
  \<^verbatim>\<open>
  useEffect(() => {
    if (notification) {
      const timer = setTimeout(() => setNotification(null), 5000);
      return () => clearTimeout(timer);
    }
  }, [notification]);
  \<close>
  \<open>shown\<close> is the value of the hook, \<open>timers\<close> the pending timeouts of the window (handle and
  milliseconds left), \<open>cleanup\<close> the handle that the cleanup function returned by the last
  run of the effect would clear, \<open>nextTimer\<close> the next free handle. Time is a discrete
  clock counting milliseconds.
\<close>

record Banner =
  shown :: "Notification option"
  timers :: "(nat \<times> nat) list"
  cleanup :: "nat option"
  nextTimer :: nat

definition initialBanner :: Banner where
  "initialBanner = \<lparr> shown = None, timers = [], cleanup = None, nextTimer = 0 \<rparr>"

text \<open>The delay given to \<open>setTimeout\<close>: 5000 milliseconds, that is 5 seconds.\<close>

definition displayDuration :: nat where
  "displayDuration = 5000"

definition setTimeout :: "nat \<Rightarrow> Banner \<Rightarrow> nat \<times> Banner" where
  "setTimeout ms b =
     (nextTimer b,
      b\<lparr>timers := timers b @ [(nextTimer b, ms)], nextTimer := Suc (nextTimer b)\<rparr>)"

definition clearTimeout :: "nat \<Rightarrow> Banner \<Rightarrow> Banner" where
  "clearTimeout h b = b\<lparr>timers := filter (\<lambda>p. fst p \<noteq> h) (timers b)\<rparr>"

text \<open>The body of the effect, and the cleanup function of its previous run.\<close>

definition notificationEffect :: "Banner \<Rightarrow> Banner" where
  "notificationEffect b =
     (case shown b of
        None \<Rightarrow> b\<lparr>cleanup := None\<rparr>
      | Some n \<Rightarrow>
          (case setTimeout displayDuration b of (timer, b1) \<Rightarrow> b1\<lparr>cleanup := Some timer\<rparr>))"

definition runCleanup :: "Banner \<Rightarrow> Banner" where
  "runCleanup b =
     (case cleanup b of
        None \<Rightarrow> b
      | Some timer \<Rightarrow> (clearTimeout timer b)\<lparr>cleanup := None\<rparr>)"

text \<open>
  \<open>setNotification\<close>: the hook is written, and since \<open>notification\<close> is the dependency of
  the effect, the cleanup of the previous run and then the effect run again. Every call
  with an object passes a new object, so the dependency changes; \<open>null\<close> over \<open>null\<close> is no
  change and nothing runs.
\<close>

definition setNotification :: "Notification option \<Rightarrow> Banner \<Rightarrow> Banner" where
  "setNotification n b =
     (if n = None \<and> shown b = None then b
      else notificationEffect ((runCleanup b)\<lparr>shown := n\<rparr>))"

text \<open>
  \<open>d\<close> milliseconds pass with no call of \<open>setNotification\<close> from outside: a timeout whose
  time is up runs its callback \<open>() => setNotification(null)\<close>, the others count down.
\<close>

definition elapse :: "nat \<Rightarrow> Banner \<Rightarrow> Banner" where
  "elapse d b =
     (let due = filter (\<lambda>p. snd p \<le> d) (timers b);
          b1 = b\<lparr>timers :=
                  map (\<lambda>p. (fst p, snd p - d)) (filter (\<lambda>p. d < snd p) (timers b))\<rparr>
      in if due = [] then b1 else setNotification None b1)"

text \<open>
  What can happen to the notification: a handler shows one, the user presses the close
  button of the banner (\<open>onClick={() => setNotification(null)}\<close>), time passes.
\<close>

datatype action = Show Notification | Dismiss | Elapse nat

fun step :: "Banner \<Rightarrow> action \<Rightarrow> Banner" where
  "step b (Show n) = setNotification (Some n) b"
| "step b Dismiss = setNotification None b"
| "step b (Elapse d) = elapse d b"

definition run :: "action list \<Rightarrow> Banner" where
  "run acts = foldl step initialBanner acts"

text \<open>
  The invariant of the banner: with no notification there is no timeout; with a
  notification there is exactly one, it is the one the cleanup would clear, and it has
  between 1 and 5000 milliseconds left.
\<close>

definition banner_ok :: "Banner \<Rightarrow> bool" where
  "banner_ok b =
     (case shown b of
        None \<Rightarrow> timers b = [] \<and> cleanup b = None
      | Some n \<Rightarrow>
          (case timers b of
             [p] \<Rightarrow> cleanup b = Some (fst p) \<and> 0 < snd p \<and> snd p \<le> displayDuration \<and>
                    fst p < nextTimer b
           | _ \<Rightarrow> False))"

section \<open>Examples\<close>

definition sampleEvent :: "string \<Rightarrow> RegistrationStatus option \<Rightarrow> IEvent" where
  "sampleEvent i r =
     \<lparr> title = ''Launch Party'', date = ''2025-01-01T10:00'', location = ''Hall'',
       description = [], category = ''Networking'', capacity = 50, imageUrl = None,
       status = upcoming, ev_id = i, attendees = 0, registrationStatus = r \<rparr>"

definition sampleUser :: IUser where
  "sampleUser =
     \<lparr> user_id = ''u1'', name = ''Ann'', email = ''ann@example.org'',
       phoneNumber = None, role = user \<rparr>"

definition sampleDetails :: ContactDetails where
  "sampleDetails =
     \<lparr> d_name = ''Ann B'', d_email = ''ab@example.org'', d_phoneNumber = ''555'' \<rparr>"

text \<open>A logged-in attendee looking at three events, the second of which is applied for.\<close>

definition sampleState :: AppState where
  "sampleState =
     initialState\<lparr>currentUser := Some sampleUser, loading := False,
       events := [sampleEvent ''e1'' None, sampleEvent ''e2'' (Some pending),
                  sampleEvent ''e3'' (Some none)]\<rparr>"

text \<open>A creation form with an image reference.\<close>

definition sampleForm :: EventFormData where
  "sampleForm =
     \<lparr> title = ''Launch Party'', date = ''2025-03-01T18:00'', location = ''Hall'',
       description = [], category = ''Networking'', capacity = 50,
       imageUrl = Some ''form.png'', status = upcoming \<rparr>"

definition sampleApplication :: IApplication where
  "sampleApplication =
     \<lparr> app_id = ''a1'', eventId = ''e1'', eventTitle = ''Launch Party'', userId = ''u1'',
       userName = ''Ann'', userEmail = ''ann@example.org'', userPhone = None,
       app_status = pending, timestamp = ''2025-01-01T09:00'' \<rparr>"

text \<open>The admin console with two events, one application and the reschedule dialogue
  open on the second event.\<close>

definition adminState :: AppState where
  "adminState =
     initialState\<lparr>currentView := cms, adminAuthenticated := True, loading := False,
       events := [sampleEvent ''e1'' None, sampleEvent ''e2'' None],
       applications := [sampleApplication],
       rescheduleModal := Some \<lparr> isOpen = True, rs_eventId = ''e2'',
         rs_eventTitle = ''Launch Party'', currentDate = ''2025-01-01T10:00'' \<rparr>,
       newDate := ''2025-02-02T12:00''\<rparr>"

section \<open>Facts about the examples\<close>

lemma sampleState_user: "currentUser sampleState = Some sampleUser"
  by (simp add: sampleState_def)

lemma sampleState_events:
  "events sampleState =
     [sampleEvent ''e1'' None, sampleEvent ''e2'' (Some pending), sampleEvent ''e3'' (Some none)]"
  by (simp add: sampleState_def)

lemma sampleEvent_sel [simp]:
  "ev_id (sampleEvent i r) = i" "registrationStatus (sampleEvent i r) = r"
  by (simp_all add: sampleEvent_def)

lemma adminState_sel:
  "events adminState = [sampleEvent ''e1'' None, sampleEvent ''e2'' None]"
  "applications adminState = [sampleApplication]"
  "newDate adminState = ''2025-02-02T12:00''"
  "rescheduleModal adminState =
     Some \<lparr> isOpen = True, rs_eventId = ''e2'', rs_eventTitle = ''Launch Party'',
            currentDate = ''2025-01-01T10:00'' \<rparr>"
  by (simp_all add: adminState_def)

section \<open>Properties of the view router\<close>

text \<open>
  Claim C8. In the \<open>cms\<close> view without the admin flag, and in the \<open>user-dashboard\<close> view
  without a logged-in attendee, the application renders the access-denied fallback:
  neither the admin console nor the dashboard, and no other screen in their place.
\<close>

theorem render_access_denied:
  assumes "(currentView s = cms \<and> \<not> adminAuthenticated s) \<or>
           (currentView s = user_dashboard \<and> currentUser s = None)"
  shows "render s = AccessDenied"
  using assms by (auto simp: render_def)

theorem render_access_denied_witness:
  "render (initialState\<lparr>currentView := cms\<rparr>) = AccessDenied \<and>
   render (initialState\<lparr>currentView := user_dashboard\<rparr>) = AccessDenied"
  using render_access_denied [of "initialState\<lparr>currentView := cms\<rparr>"]
    render_access_denied [of "initialState\<lparr>currentView := user_dashboard\<rparr>"]
  by (simp add: initialState_def)

section \<open>Properties of the registration flow\<close>

lemma targetEventId_direct: "truthy d \<Longrightarrow> targetEventId (Some d) s = Some d"
  by (simp add: targetEventId_def truthy_opt_def)

lemma targetEventId_selected:
  "selectedEventForApp s = Some e \<Longrightarrow> targetEventId None s = Some (ev_id e)"
  by (simp add: targetEventId_def truthy_opt_def)

text \<open>When the guard lets the handler through, this is the state at the \<open>await\<close>.\<close>

lemma handleApplyConfirm_start_Some:
  assumes "currentUser s = Some u" and "targetEventId directEventId s = Some eid"
    and "truthy eid"
  shows "handleApplyConfirm_start details directEventId s =
           Some (eid, [Remote (ApplyForEvent eid (user_id u) details)],
             s\<lparr>formSubmitting := True, events := map (optimisticUpdate eid) (events s),
               currentUser := Some (mergeDetails u details)\<rparr>)"
  using assms by (simp add: handleApplyConfirm_start_def)

text \<open>
  On the home page the action starts at \<open>initiateJoinEvent\<close>: for an event the viewer has
  applied for it runs \<open>handleApplyConfirm\<close> with the viewer's own details and the event's
  identifier; otherwise it opens the application form on the event, whose confirmation
  then runs \<open>handleApplyConfirm\<close> with the selected event as the target.
\<close>

lemma initiateJoinEvent_logged_in:
  assumes "currentUser s = Some u"
  shows "isCancelling event \<Longrightarrow>
           initiateJoinEvent event r reload s =
             handleApplyConfirm (ownDetails u) (Some (ev_id event)) r reload s"
    and "\<not> isCancelling event \<Longrightarrow>
           initiateJoinEvent event r reload s =
             ([], s\<lparr>selectedEventForApp := Some event, isApplicationModalOpen := True\<rparr>)"
    and "\<not> isCancelling event \<Longrightarrow>
           targetEventId None (snd (initiateJoinEvent event r reload s)) = Some (ev_id event)"
  using assms by (simp_all add: initiateJoinEvent_def targetEventId_selected)

text \<open>
  Claim C1. A viewer is logged in and \<open>handleApplyConfirm\<close> is called for an event \<open>e\<close> of the
  local collection (its target identifier, given directly or through the selected
  event, is the identifier of \<open>e\<close>; the guard \<open>!eventId\<close> takes an empty identifier for a
  missing one, so the identifier is not empty). Then the handler reaches the \<open>await\<close> of
  \<open>applyForEvent\<close>, and in the state at that moment, before the call settles, the event
  has the registration status \<open>pending\<close> if it had none or \<open>none\<close>, and \<open>none\<close> if it had
  \<open>pending\<close>, \<open>confirmed\<close> or \<open>rejected\<close>; nothing else in the event has changed.
\<close>

theorem handleApplyConfirm_optimistic:
  assumes "currentUser s = Some u"
    and "targetEventId directEventId s = Some (ev_id e)"
    and "truthy (ev_id e)"
    and "i < length (events s)"
    and "events s ! i = e"
  shows "\<exists>es s1. handleApplyConfirm_start details directEventId s = Some (ev_id e, es, s1) \<and>
           es = [Remote (ApplyForEvent (ev_id e) (user_id u) details)] \<and>
           length (events s1) = length (events s) \<and>
           (registrationStatus e = None \<or> registrationStatus e = Some none \<longrightarrow>
              events s1 ! i = e\<lparr>registrationStatus := Some pending\<rparr>) \<and>
           (registrationStatus e \<in> {Some pending, Some confirmed, Some rejected} \<longrightarrow>
              events s1 ! i = e\<lparr>registrationStatus := Some none\<rparr>)"
  using assms
  by (auto simp: handleApplyConfirm_start_def optimisticUpdate_def isCancelling_def)

theorem handleApplyConfirm_optimistic_witness:
  "(\<exists>es s1. handleApplyConfirm_start sampleDetails (Some ''e1'') sampleState
              = Some (''e1'', es, s1) \<and>
      registrationStatus (events s1 ! 0) = Some pending) \<and>
   (\<exists>es s1. handleApplyConfirm_start sampleDetails (Some ''e2'') sampleState
              = Some (''e2'', es, s1) \<and>
      registrationStatus (events s1 ! 1) = Some none)"
proof -
  have t1: "truthy ''e1''" and t2: "truthy ''e2''"
    by (simp_all add: truthy_def)
  have "\<exists>es s1. handleApplyConfirm_start sampleDetails (Some ''e1'') sampleState
            = Some (''e1'', es, s1) \<and>
          registrationStatus (events s1 ! 0) = Some pending"
    using handleApplyConfirm_optimistic [of sampleState sampleUser "Some ''e1''"
        "sampleEvent ''e1'' None" 0 sampleDetails] t1
    by (simp add: sampleState_user sampleState_events targetEventId_direct) force
  moreover
  have "\<exists>es s1. handleApplyConfirm_start sampleDetails (Some ''e2'') sampleState
            = Some (''e2'', es, s1) \<and>
          registrationStatus (events s1 ! 1) = Some none"
    using handleApplyConfirm_optimistic [of sampleState sampleUser "Some ''e2''"
        "sampleEvent ''e2'' (Some pending)" 1 sampleDetails] t2
    by (simp add: sampleState_user sampleState_events targetEventId_direct) force
  ultimately show ?thesis by blast
qed

text \<open>
  Claim C2, as amended. A viewer is logged in, \<open>handleApplyConfirm\<close> has a target, and
  \<open>applyForEvent\<close> is rejected. Then the handler calls \<open>getEvents\<close> and shows exactly one
  notification, the error \<open>Action failed.\<close>; when that reload is fulfilled with \<open>data\<close>, the
  local collection is \<open>data\<close> once everything has settled. When the reload is rejected as
  well, \<open>loadEvents\<close> only logs the error and the collection keeps the optimistic update.
\<close>

theorem handleApplyConfirm_failure_reload:
  assumes "currentUser s = Some u" and "targetEventId directEventId s = Some eid"
    and "truthy eid"
  shows "Remote GetEvents \<in> set (fst (handleApplyConfirm details directEventId (Inl err) reload s)) \<and>
         filter isNotify (fst (handleApplyConfirm details directEventId (Inl err) reload s)) =
           [Notify (notify ''Action failed.'' error)] \<and>
         notification (snd (handleApplyConfirm details directEventId (Inl err) reload s)) =
           Some (notify ''Action failed.'' error) \<and>
         events (snd (handleApplyConfirm details directEventId (Inl err) (Inr data) s)) = data \<and>
         events (snd (handleApplyConfirm details directEventId (Inl err) (Inl err') s)) =
           map (optimisticUpdate eid) (events s)"
  by (simp add: handleApplyConfirm_def handleApplyConfirm_start_Some [OF assms]
      handleApplyConfirm_settle_def Let_def loadEvents_start_def loadEvents_settle_def
      split: sum.splits)

theorem handleApplyConfirm_failure_reload_witness:
  "events (snd (handleApplyConfirm sampleDetails (Some ''e1'') (Inl (Rejected ''offline''))
      (Inr [sampleEvent ''e9'' None]) sampleState)) = [sampleEvent ''e9'' None] \<and>
   filter isNotify (fst (handleApplyConfirm sampleDetails (Some ''e1'')
      (Inl (Rejected ''offline'')) (Inr [sampleEvent ''e9'' None]) sampleState)) =
     [Notify (notify ''Action failed.'' error)]"
proof -
  have t: "truthy ''e1''" by (simp add: truthy_def)
  show ?thesis
    using handleApplyConfirm_failure_reload [OF sampleState_user targetEventId_direct [OF t] t,
        of sampleDetails "Rejected ''offline''" "Inr [sampleEvent ''e9'' None]"
          "[sampleEvent ''e9'' None]"]
    by simp
qed

text \<open>
  The claim as it was written fails when the reload is rejected too (the backend is
  unreachable for both calls): the first event had no registration status, and after
  everything has settled it still shows the \<open>pending\<close> that was never stored.
\<close>

theorem handleApplyConfirm_revert_counterexample:
  "registrationStatus (hd (events sampleState)) = None \<and>
   registrationStatus (hd (events (snd (handleApplyConfirm sampleDetails (Some ''e1'')
      (Inl (Rejected ''offline'')) (Inl (Rejected ''offline'')) sampleState)))) = Some pending"
  by (simp add: handleApplyConfirm_def handleApplyConfirm_start_Some [OF sampleState_user]
      targetEventId_direct truthy_def handleApplyConfirm_settle_def Let_def
      loadEvents_start_def loadEvents_settle_def sampleState_events optimisticUpdate_def
      isCancelling_def)

text \<open>
  Claim C7. With no logged-in viewer, \<open>initiateJoinEvent\<close> only sets the flag that shows the
  authentication prompt: it issues no call, and the events, the applications and the
  session (as every other hook) are as before. \<open>handleApplyConfirm\<close> returns at its guard,
  with no effect and no change at all.
\<close>

theorem no_viewer_no_mutation:
  assumes "currentUser s = None"
  shows "initiateJoinEvent event r reload s = ([], s\<lparr>showUserAuth := True\<rparr>) \<and>
         handleApplyConfirm details directEventId r reload s = ([], s) \<and>
         handleApplyConfirm_start details directEventId s = None"
  using assms
  by (simp add: initiateJoinEvent_def handleApplyConfirm_def handleApplyConfirm_start_def
      split: option.splits)

theorem no_viewer_no_mutation_witness:
  "initiateJoinEvent (sampleEvent ''e1'' None) (Inr ()) (Inr []) initialState =
     ([], initialState\<lparr>showUserAuth := True\<rparr>) \<and>
   handleApplyConfirm sampleDetails (Some ''e1'') (Inr ()) (Inr []) initialState =
     ([], initialState)"
  using no_viewer_no_mutation [of initialState "sampleEvent ''e1'' None" "Inr ()" "Inr []"
      sampleDetails "Some ''e1''"]
  by (simp add: initialState_def)

text \<open>
  Claim C10. A viewer \<open>u\<close> is logged in and \<open>handleApplyConfirm\<close> has a target. Then, in the
  state in which \<open>applyForEvent\<close> is issued, the session identity is \<open>u\<close> with the name, the
  email and the phone number of the submitted details (identifier and role are those of
  \<open>u\<close>); and when the call is rejected the session identity after the whole run,
  whatever the reload returns, is still that one.
\<close>

theorem handleApplyConfirm_identity:
  assumes "currentUser s = Some u" and "targetEventId directEventId s = Some eid"
    and "truthy eid"
  shows "\<exists>s1. handleApplyConfirm_start details directEventId s =
                 Some (eid, [Remote (ApplyForEvent eid (user_id u) details)], s1) \<and>
              currentUser s1 =
                 Some (u\<lparr>name := d_name details, email := d_email details,
                          phoneNumber := Some (d_phoneNumber details)\<rparr>) \<and>
              currentUser (snd (handleApplyConfirm details directEventId (Inl err) reload s)) =
                 currentUser s1"
  by (simp add: handleApplyConfirm_def handleApplyConfirm_start_Some [OF assms]
      handleApplyConfirm_settle_def Let_def loadEvents_start_def loadEvents_settle_def
      mergeDetails_def split: sum.splits)

theorem handleApplyConfirm_identity_witness:
  "currentUser (snd (handleApplyConfirm sampleDetails (Some ''e1'') (Inl (Rejected ''offline''))
      (Inr []) sampleState)) =
     Some (sampleUser\<lparr>name := ''Ann B'', email := ''ab@example.org'',
                       phoneNumber := Some ''555''\<rparr>)"
proof -
  have t: "truthy ''e1''" by (simp add: truthy_def)
  show ?thesis
    using handleApplyConfirm_identity [OF sampleState_user targetEventId_direct [OF t] t,
        of sampleDetails "Rejected ''offline''" "Inr []"]
    by (auto simp: sampleDetails_def)
qed

section \<open>Properties of the admin actions\<close>

text \<open>
  Claim C3, as amended. When \<open>updateApplicationStatus\<close> is fulfilled, the handler sets
  the status of the applications with that identifier in the local collection, shows
  one success notification, and calls \<open>getEvents\<close> exactly when the application is in the
  local collection (the collection is then replaced by what the reload returns). When
  \<open>updateApplicationStatus\<close> is rejected, the handler shows one error notification and
  does nothing else: no reload, no change to the applications.
\<close>

theorem handleApplicationAction_reload:
  "(Remote GetEvents \<in> set (fst (handleApplicationAction appId st (Inr ()) reload s)))
      = (appId \<in> app_id ` set (applications s)) \<and>
   applications (snd (handleApplicationAction appId st (Inr ()) reload s)) =
      map (setApplicationStatus appId st) (applications s) \<and>
   filter isNotify (fst (handleApplicationAction appId st (Inr ()) reload s)) =
      [Notify (notify (''Application updated to '' @ statusText st @ ''.'') success)] \<and>
   (appId \<in> app_id ` set (applications s) \<longrightarrow>
      events (snd (handleApplicationAction appId st (Inr ()) (Inr data) s)) = data) \<and>
   fst (handleApplicationAction appId st (Inl err) reload s) =
      [Remote (UpdateApplicationStatus appId st),
       Notify (notify ''Failed to update application.'' error)] \<and>
   snd (handleApplicationAction appId st (Inl err) reload s) =
      s\<lparr>notification := Some (notify ''Failed to update application.'' error)\<rparr>"
proof (cases "find (\<lambda>a. app_id a = appId) (applications s)")
  case None
  then have "appId \<notin> app_id ` set (applications s)"
    by (auto simp: find_None_iff)
  with None show ?thesis
    by (simp add: handleApplicationAction_def handleApplicationAction_start_def
        handleApplicationAction_settle_def Let_def reloadPending_def)
next
  case (Some a)
  then have "appId \<in> app_id ` set (applications s)"
    by (auto simp: find_Some_iff)
  with Some show ?thesis
    by (simp add: handleApplicationAction_def handleApplicationAction_start_def
        handleApplicationAction_settle_def Let_def reloadPending_def loadEvents_start_def
        loadEvents_settle_def split: sum.splits)
qed

theorem handleApplicationAction_reload_witness:
  "Remote GetEvents \<in> set (fst (handleApplicationAction ''a1'' confirmed (Inr ())
      (Inr [sampleEvent ''e9'' None]) adminState)) \<and>
   events (snd (handleApplicationAction ''a1'' confirmed (Inr ())
      (Inr [sampleEvent ''e9'' None]) adminState)) = [sampleEvent ''e9'' None]"
  using handleApplicationAction_reload [of "''a1''" confirmed "Inr [sampleEvent ''e9'' None]"
      adminState "[sampleEvent ''e9'' None]"]
  by (simp add: adminState_sel sampleApplication_def)

text \<open>
  The claim as it was written fails when the status update is rejected: approving the
  application \<open>a1\<close> then issues the update call and nothing after it, so no reload.
\<close>

theorem handleApplicationAction_counterexample:
  "Remote GetEvents \<notin> set (fst (handleApplicationAction ''a1'' confirmed
      (Inl (Rejected ''offline'')) (Inr []) adminState))"
  by (simp add: handleApplicationAction_def handleApplicationAction_start_def
      handleApplicationAction_settle_def Let_def reloadPending_def)

text \<open>
  Claim C4, as amended. When \<open>createEvent\<close> is fulfilled with a record, the first element
  of the new collection is that record with its image reference replaced by the one of
  the form when the form has a non-empty one (and exactly that record when the form has
  none), the rest is the old collection, the creation form is closed and one success
  notification is shown. When \<open>createEvent\<close> is rejected, the collection is as before,
  the flag of the creation form is as before (an open form stays open) and one error
  notification is shown.
\<close>

theorem handleCreateEvent_outcome:
  "events (snd (handleCreateEvent data (Inr newEvent) s)) =
     (if truthy_opt (imageUrl data) then newEvent\<lparr>imageUrl := imageUrl data\<rparr> else newEvent)
       # events s \<and>
   isModalOpen (snd (handleCreateEvent data (Inr newEvent) s)) = False \<and>
   notification (snd (handleCreateEvent data (Inr newEvent) s)) =
     Some (notify ''Event created successfully!'' success) \<and>
   filter isNotify (fst (handleCreateEvent data (Inr newEvent) s)) =
     [Notify (notify ''Event created successfully!'' success)] \<and>
   events (snd (handleCreateEvent data (Inl err) s)) = events s \<and>
   isModalOpen (snd (handleCreateEvent data (Inl err) s)) = isModalOpen s \<and>
   notification (snd (handleCreateEvent data (Inl err) s)) =
     Some (notify ''Failed to create event.'' error) \<and>
   filter isNotify (fst (handleCreateEvent data (Inl err) s)) =
     [Notify (notify ''Failed to create event.'' error)]"
  by (simp add: handleCreateEvent_def handleCreateEvent_start_def handleCreateEvent_settle_def
      Let_def withFormImage_def)

text \<open>
  The claim as it was written fails when the form carries an image reference and the
  backend returns the record with another one (here with none): the first element of
  the new collection carries the form's reference, so it is not the returned record.
\<close>

theorem handleCreateEvent_counterexample:
  "imageUrl (sampleEvent ''e9'' None) = None \<and>
   imageUrl (hd (events (snd (handleCreateEvent sampleForm (Inr (sampleEvent ''e9'' None))
      adminState)))) = Some ''form.png'' \<and>
   hd (events (snd (handleCreateEvent sampleForm (Inr (sampleEvent ''e9'' None))
      adminState))) \<noteq> sampleEvent ''e9'' None"
  by (simp add: handleCreateEvent_def handleCreateEvent_start_def handleCreateEvent_settle_def
      Let_def withFormImage_def truthy_opt_def truthy_def sampleForm_def sampleEvent_def)

text \<open>
  Claim C5. \<open>handleDeleteEvent\<close> asks \<open>window.confirm\<close> first. When the answer is no, that is
  all it does: no call of the persistence client and the state as before. When the
  answer is yes it calls \<open>deleteEvent\<close>; if the call is fulfilled the events with that
  identifier are removed from the collection and a success notification is shown; if
  it is rejected an error notification is shown and nothing else changes, so the
  record stays.
\<close>

theorem handleDeleteEvent_outcome:
  "handleDeleteEvent id' False r s = ([WindowConfirm confirmDeleteText], s) \<and>
   fst (handleDeleteEvent id' True (Inr ()) s) =
     [WindowConfirm confirmDeleteText, Remote (DeleteEvent id'),
      Notify (notify ''Event deleted.'' success)] \<and>
   events (snd (handleDeleteEvent id' True (Inr ()) s)) =
     filter (\<lambda>ev. ev_id ev \<noteq> id') (events s) \<and>
   fst (handleDeleteEvent id' True (Inl err) s) =
     [WindowConfirm confirmDeleteText, Remote (DeleteEvent id'),
      Notify (notify ''Failed to delete event.'' error)] \<and>
   snd (handleDeleteEvent id' True (Inl err) s) =
     s\<lparr>notification := Some (notify ''Failed to delete event.'' error)\<rparr>"
  by (simp add: handleDeleteEvent_def handleDeleteEvent_start_def handleDeleteEvent_settle_def
      Let_def)

text \<open>
  Claim C6. The reschedule dialogue is open with a new date entered. Then
  \<open>handleRescheduleSubmit\<close> issues \<open>updateEvent\<close> without having written anything to the
  state. When the call is fulfilled, every event with the identifier of the dialogue
  is the old record with only its date replaced by the new date, every other event is
  the old record, and the success notification is shown. When the call is rejected,
  the error notification is shown and nothing else changes: the old date stays.
\<close>

theorem handleRescheduleSubmit_outcome:
  assumes "rescheduleModal s = Some m" and "truthy (newDate s)"
  shows "handleRescheduleSubmit_start s =
           Some ([Remote (UpdateEvent (rs_eventId m) (newDate s))], s) \<and>
         length (events (snd (handleRescheduleSubmit (Inr ()) s))) = length (events s) \<and>
         (\<forall>i < length (events s).
            events (snd (handleRescheduleSubmit (Inr ()) s)) ! i =
              (if ev_id (events s ! i) = rs_eventId m
               then (events s ! i)\<lparr>date := newDate s\<rparr>
               else events s ! i)) \<and>
         notification (snd (handleRescheduleSubmit (Inr ()) s)) =
           Some (notify ''Event rescheduled successfully. Applicants notified.'' success) \<and>
         snd (handleRescheduleSubmit (Inl err) s) =
           s\<lparr>notification := Some (notify ''Failed to reschedule.'' error)\<rparr> \<and>
         fst (handleRescheduleSubmit (Inl err) s) =
           [Remote (UpdateEvent (rs_eventId m) (newDate s)),
            Notify (notify ''Failed to reschedule.'' error)]"
  using assms
  by (simp add: handleRescheduleSubmit_def handleRescheduleSubmit_start_def
      handleRescheduleSubmit_settle_def patchDate_def Let_def)

theorem handleRescheduleSubmit_outcome_witness:
  "handleRescheduleSubmit_start adminState =
     Some ([Remote (UpdateEvent ''e2'' ''2025-02-02T12:00'')], adminState) \<and>
   events (snd (handleRescheduleSubmit (Inr ()) adminState)) ! 0 = sampleEvent ''e1'' None \<and>
   events (snd (handleRescheduleSubmit (Inr ()) adminState)) ! 1 =
     (sampleEvent ''e2'' None)\<lparr>date := ''2025-02-02T12:00''\<rparr>"
proof -
  have t: "truthy (newDate adminState)"
    by (simp add: adminState_sel truthy_def)
  show ?thesis
    using handleRescheduleSubmit_outcome [OF adminState_sel(4) t]
    by (simp add: adminState_sel)
qed

section \<open>Properties of the notification\<close>

lemma banner_ok_setNotification: "banner_ok b \<Longrightarrow> banner_ok (setNotification n b)"
  by (auto simp: banner_ok_def setNotification_def notificationEffect_def runCleanup_def
      clearTimeout_def setTimeout_def displayDuration_def split: option.splits list.splits)

lemma banner_ok_elapse: "banner_ok b \<Longrightarrow> banner_ok (elapse d b)"
  by (auto simp: banner_ok_def elapse_def Let_def setNotification_def notificationEffect_def
      runCleanup_def clearTimeout_def setTimeout_def displayDuration_def
      split: option.splits list.splits)

lemma banner_ok_step: "banner_ok b \<Longrightarrow> banner_ok (step b a)"
  by (cases a) (simp_all add: banner_ok_setNotification banner_ok_elapse)

lemma banner_ok_foldl: "banner_ok b \<Longrightarrow> banner_ok (foldl step b acts)"
  by (induction acts arbitrary: b) (simp_all add: banner_ok_step)

text \<open>Every state the banner can reach satisfies the invariant.\<close>

lemma banner_ok_run: "banner_ok (run acts)"
  unfolding run_def by (rule banner_ok_foldl) (simp add: banner_ok_def initialBanner_def)

text \<open>Time passing in two parts is time passing in one.\<close>

lemma elapse_idle: "shown b = None \<Longrightarrow> timers b = [] \<Longrightarrow> elapse d b = b"
  by (simp add: elapse_def)

lemma elapse_single:
  assumes "timers b = [(h, t)]" and "cleanup b = Some h" and "shown b = Some n"
  shows "elapse d b =
           (if d < t then b\<lparr>timers := [(h, t - d)]\<rparr>
            else b\<lparr>shown := None, timers := [], cleanup := None\<rparr>)"
  using assms
  by (simp add: elapse_def setNotification_def notificationEffect_def runCleanup_def
      clearTimeout_def)

lemma elapse_add:
  assumes "banner_ok b"
  shows "elapse d2 (elapse d1 b) = elapse (d1 + d2) b"
proof (cases "shown b")
  case None
  with assms have "timers b = []" by (simp add: banner_ok_def)
  with None show ?thesis by (simp add: elapse_idle)
next
  case (Some n)
  with assms obtain h t where ht: "timers b = [(h, t)]" "cleanup b = Some h"
    by (auto simp: banner_ok_def split: list.splits)
  show ?thesis
  proof (cases "d1 < t")
    case True
    then have "elapse d1 b = b\<lparr>timers := [(h, t - d1)]\<rparr>"
      by (simp add: elapse_single [OF ht Some])
    moreover have "elapse d2 (b\<lparr>timers := [(h, t - d1)]\<rparr>) = elapse (d1 + d2) b"
      using True Some ht
      by (simp add: elapse_single [where h = h and n = n])
    ultimately show ?thesis by simp
  next
    case False
    then show ?thesis
      by (simp add: elapse_single [OF ht Some] elapse_idle)
  qed
qed

text \<open>
  Claim C9. In every state the banner can reach there is at most one pending timeout,
  and there is one exactly when a notification is shown (the hook holds at most one
  notification). A notification shown in such a state is still there after less than
  5000 milliseconds with nothing else happening, and is gone, with no timeout left,
  after 5000 milliseconds or more. Dismissing clears the notification and the timeout
  at once. Showing a notification, over an older one or not, leaves the new
  notification with one timeout of the full 5000 milliseconds under a new handle: the
  timeout of the older notification is cancelled.
\<close>

theorem notification_lifetime:
  "length (timers (run acts)) \<le> 1 \<and>
   (timers (run acts) = [] \<longleftrightarrow> shown (run acts) = None) \<and>
   (d < displayDuration \<longrightarrow>
      shown (elapse d (setNotification (Some n) (run acts))) = Some n) \<and>
   (displayDuration \<le> d \<longrightarrow>
      shown (elapse d (setNotification (Some n) (run acts))) = None \<and>
      timers (elapse d (setNotification (Some n) (run acts))) = []) \<and>
   shown (setNotification None (run acts)) = None \<and>
   timers (setNotification None (run acts)) = [] \<and>
   shown (setNotification (Some n) (run acts)) = Some n \<and>
   timers (setNotification (Some n) (run acts)) = [(nextTimer (run acts), displayDuration)] \<and>
   nextTimer (run acts) \<notin> fst ` set (timers (run acts))"
proof -
  have ok: "banner_ok (run acts)" by (rule banner_ok_run)
  then show ?thesis
    by (auto simp: banner_ok_def elapse_def Let_def setNotification_def notificationEffect_def
        runCleanup_def clearTimeout_def setTimeout_def split: option.splits list.splits)
qed

theorem notification_lifetime_witness:
  "shown (elapse 4999 (setNotification (Some (notify ''b'' error))
       (run [Show (notify ''a'' success), Elapse 3000]))) = Some (notify ''b'' error) \<and>
   shown (elapse 5000 (setNotification (Some (notify ''b'' error))
       (run [Show (notify ''a'' success), Elapse 3000]))) = None"
  using notification_lifetime [of "[Show (notify ''a'' success), Elapse 3000]" 4999
      "notify ''b'' error"]
    notification_lifetime [of "[Show (notify ''a'' success), Elapse 3000]" 5000
      "notify ''b'' error"]
  by (simp add: displayDuration_def)

end
